theory Spec2Isabelle
  imports Main "HOL-Library.List_Lexorder" "HOL-Library.Char_ord"
begin

section \<open>Python values used by the two scripts\<close>

text \<open>
  Strings are byte lists holding ASCII text (UTF-8 keeps the code-point order, so the
  lexicographic order of \<open>HOL-Library.List_Lexorder\<close> over \<open>HOL-Library.Char_ord\<close> is
  the order of Python's \<open>sorted\<close> on \<open>str\<close>). Exceptions are values of \<open>py_error\<close>;
  \<open>OtherException\<close> carries the name of any exception class not listed.
\<close>

datatype py_error =
    AttributeError
  | TypeError
  | IndexError
  | FileNotFoundError
  | OtherException string

text \<open>\<open>sub in name\<close> on two \<open>str\<close> values: \<open>sub\<close> occurs as a contiguous slice.\<close>

fun starts_with :: "string \<Rightarrow> string \<Rightarrow> bool" where
  "starts_with [] s = True"
| "starts_with (p # ps) [] = False"
| "starts_with (p # ps) (c # cs) = (p = c \<and> starts_with ps cs)"

fun contains :: "string \<Rightarrow> string \<Rightarrow> bool" where
  "contains sub [] = (sub = [])"
| "contains sub (c # cs) = (starts_with sub (c # cs) \<or> contains sub cs)"

text \<open>\<open>str.lower\<close> on ASCII text: the letters \<open>A\<close> to \<open>Z\<close> move to \<open>a\<close> to \<open>z\<close>.\<close>

definition lower_char :: "char \<Rightarrow> char" where
  "lower_char c =
     (if CHR ''A'' \<le> c \<and> c \<le> CHR ''Z'' then char_of (of_char c + (32::nat)) else c)"

definition lower :: "string \<Rightarrow> string" where
  "lower s = map lower_char s"

text \<open>
  \<open>str.strip()\<close> removes leading and trailing whitespace; on ASCII text these are the
  characters 9 to 13, 28 to 31 and 32.
\<close>

definition is_space :: "char \<Rightarrow> bool" where
  "is_space c = (let n = (of_char c :: nat) in (9 \<le> n \<and> n \<le> 13) \<or> (28 \<le> n \<and> n \<le> 32))"

definition strip :: "string \<Rightarrow> string" where
  "strip s = rev (dropWhile is_space (rev (dropWhile is_space s)))"

text \<open>\<open>sep.join(xs)\<close> and \<open>s.split(sep)\<close> for a one-character separator.\<close>

fun join :: "char \<Rightarrow> string list \<Rightarrow> string" where
  "join sep [] = []"
| "join sep [x] = x"
| "join sep (x # y # ys) = x @ sep # join sep (y # ys)"

fun split :: "char \<Rightarrow> string \<Rightarrow> string list" where
  "split sep [] = [[]]"
| "split sep (c # cs) =
     (if c = sep then [] # split sep cs
      else (case split sep cs of
              [] \<Rightarrow> [[c]]
            | w # ws \<Rightarrow> (c # w) # ws))"

text \<open>List indexing \<open>xs[0]\<close> and \<open>xs[-1]\<close>, which raise \<open>IndexError\<close> on an empty list.\<close>

definition index_first :: "'a list \<Rightarrow> py_error + 'a" where
  "index_first xs = (case xs of [] \<Rightarrow> Inl IndexError | x # _ \<Rightarrow> Inr x)"

definition index_last :: "'a list \<Rightarrow> py_error + 'a" where
  "index_last xs = (case xs of [] \<Rightarrow> Inl IndexError | _ # _ \<Rightarrow> Inr (last xs))"

section \<open>The extractor: \<open>scripts/coleta_dados.py\<close>\<close>

subsection \<open>\<open>detect_environment\<close>\<close>

definition detect_environment :: "string \<Rightarrow> string" where
  "detect_environment name0 =
     (let name = lower name0 in
      if contains ''mac'' name then ''mac''
      else if contains ''linux'' name \<or> contains ''ubuntu'' name then ''linux''
      else if contains ''windows'' name \<or> contains ''win'' name then ''windows''
      else ''unknown'')"

subsection \<open>\<open>get_project_info_from_csv\<close>\<close>

text \<open>
  The file system is a parameter: \<open>read_csv path\<close> is what \<open>open\<close> followed by
  \<open>list(csv.reader(f))\<close> gives for \<open>path\<close>, either the exception raised or the rows, each a
  list of fields. The function returns the pair \<open>(None, None)\<close> or two strings.
\<close>

definition get_project_info_from_csv ::
  "(string \<Rightarrow> py_error + string list list) \<Rightarrow> string \<Rightarrow>
     py_error + (string option \<times> string option)" where
  "get_project_info_from_csv read_csv csv_path =
     (case read_csv csv_path of
        Inl e \<Rightarrow> Inl e
      | Inr lines \<Rightarrow>
          if length lines < 2 then Inr (None, None)
          else
            (let second_line = lines ! 1;
                 line_str = join (CHR '','') second_line
             in case index_first (split (CHR '','') line_str) of
                  Inl e \<Rightarrow> Inl e
                | Inr f \<Rightarrow>
                    (case index_last (split (CHR '','') line_str) of
                       Inl e \<Rightarrow> Inl e
                     | Inr l \<Rightarrow> Inr (Some (strip f), Some (strip l)))))"

subsection \<open>JSON values and \<open>process_json\<close>\<close>

text \<open>
  What \<open>json.load\<close> returns. An object is the list of its items in order, with distinct
  keys; a float is a mantissa and a binary exponent.
\<close>

datatype json =
    JNull
  | JBool bool
  | JInt int
  | JFloat int int
  | JStr string
  | JArr "json list"
  | JObj "(string \<times> json) list"

text \<open>Truth value of a Python object, as \<open>if stage_data:\<close> tests it.\<close>

fun truthy :: "json \<Rightarrow> bool" where
  "truthy JNull = False"
| "truthy (JBool b) = b"
| "truthy (JInt n) = (n \<noteq> 0)"
| "truthy (JFloat m e) = (m \<noteq> 0)"
| "truthy (JStr s) = (s \<noteq> [])"
| "truthy (JArr xs) = (xs \<noteq> [])"
| "truthy (JObj kvs) = (kvs \<noteq> [])"

text \<open>\<open>d.get(key, default)\<close>: only a dict has the method.\<close>

fun py_get :: "json \<Rightarrow> string \<Rightarrow> json \<Rightarrow> py_error + json" where
  "py_get (JObj kvs) key dflt = Inr (case map_of kvs key of None \<Rightarrow> dflt | Some v \<Rightarrow> v)"
| "py_get _ key dflt = Inl AttributeError"

text \<open>
  \<open>for x in v\<close>: a list gives its elements, a dict its keys, a string its characters;
  the other values are not iterable.
\<close>

fun py_iter :: "json \<Rightarrow> py_error + json list" where
  "py_iter (JArr xs) = Inr xs"
| "py_iter (JObj kvs) = Inr (map (\<lambda>kv. JStr (fst kv)) kvs)"
| "py_iter (JStr s) = Inr (map (\<lambda>c. JStr [c]) s)"
| "py_iter _ = Inl TypeError"

text \<open>
  One row of the interchange file, with the five columns of the source. The extractor
  fills \<open>test_name\<close>, \<open>outcome\<close> and \<open>lineno\<close> with JSON values (\<open>json row\<close>); the
  classifier reads them back as text (\<open>string row\<close>).
\<close>

record 'cell row =
  project :: string
  test_name :: 'cell
  outcome :: 'cell
  lineno :: 'cell
  environment :: string

text \<open>
  The inner loop \<open>for stage in stages\<close> of one test: it appends one row for the first
  stage whose data is true and leaves the loop (\<open>break\<close>).
\<close>

fun stage_loop ::
  "string \<Rightarrow> string \<Rightarrow> json \<Rightarrow> json \<Rightarrow> string list \<Rightarrow> json row list \<Rightarrow> py_error + json row list" where
  "stage_loop proj env test nodeid [] rows = Inr rows"
| "stage_loop proj env test nodeid (stage # stages) rows =
     (case py_get test stage JNull of
        Inl e \<Rightarrow> Inl e
      | Inr stage_data \<Rightarrow>
          if truthy stage_data then
            (case py_get stage_data ''outcome'' JNull of
               Inl e \<Rightarrow> Inl e
             | Inr oc \<Rightarrow>
                 (case py_get stage_data ''crash'' (JObj []) of
                    Inl e \<Rightarrow> Inl e
                  | Inr crash \<Rightarrow>
                      (case py_get test ''lineno'' JNull of
                         Inl e \<Rightarrow> Inl e
                       | Inr test_lineno \<Rightarrow>
                           (case py_get crash ''lineno'' test_lineno of
                              Inl e \<Rightarrow> Inl e
                            | Inr ln \<Rightarrow>
                                Inr (rows @
                                  [\<lparr>project = proj, test_name = nodeid, outcome = oc,
                                    lineno = ln, environment = env\<rparr>])))))
          else stage_loop proj env test nodeid stages rows)"

definition stages :: "string list" where
  "stages = [''setup'', ''call'', ''teardown'']"

text \<open>The body of \<open>for test in data.get("tests", [])\<close>.\<close>

definition process_test :: "string \<Rightarrow> string \<Rightarrow> json \<Rightarrow> json row list \<Rightarrow> py_error + json row list" where
  "process_test proj env test rows =
     (case py_get test ''nodeid'' JNull of
        Inl e \<Rightarrow> Inl e
      | Inr nodeid \<Rightarrow> stage_loop proj env test nodeid stages rows)"

fun tests_loop :: "string \<Rightarrow> string \<Rightarrow> json list \<Rightarrow> json row list \<Rightarrow> py_error + json row list" where
  "tests_loop proj env [] rows = Inr rows"
| "tests_loop proj env (test # tests) rows =
     (case process_test proj env test rows of
        Inl e \<Rightarrow> Inl e
      | Inr rows' \<Rightarrow> tests_loop proj env tests rows')"

text \<open>The body of \<open>for collector in data.get("collectors", [])\<close>.\<close>

definition process_collector ::
  "string \<Rightarrow> string \<Rightarrow> json \<Rightarrow> json row list \<Rightarrow> py_error + json row list" where
  "process_collector proj env collector rows =
     (case py_get collector ''outcome'' JNull of
        Inl e \<Rightarrow> Inl e
      | Inr oc \<Rightarrow>
          if oc = JStr ''failed'' then
            (case py_get collector ''nodeid'' (JStr ''<unknown>'') of
               Inl e \<Rightarrow> Inl e
             | Inr nodeid \<Rightarrow>
                 Inr (rows @
                   [\<lparr>project = proj, test_name = nodeid, outcome = JStr ''collection_error'',
                     lineno = JNull, environment = env\<rparr>]))
          else Inr rows)"

fun collectors_loop ::
  "string \<Rightarrow> string \<Rightarrow> json list \<Rightarrow> json row list \<Rightarrow> py_error + json row list" where
  "collectors_loop proj env [] rows = Inr rows"
| "collectors_loop proj env (collector # collectors) rows =
     (case process_collector proj env collector rows of
        Inl e \<Rightarrow> Inl e
      | Inr rows' \<Rightarrow> collectors_loop proj env collectors rows')"

text \<open>
  \<open>read_json path\<close> is what \<open>open\<close> followed by \<open>json.load(f)\<close> gives for \<open>path\<close>.
\<close>

definition process_json ::
  "(string \<Rightarrow> py_error + json) \<Rightarrow> string \<Rightarrow> string \<Rightarrow> string \<Rightarrow> py_error + json row list" where
  "process_json read_json file_path proj env =
     (case read_json file_path of
        Inl e \<Rightarrow> Inl e
      | Inr data \<Rightarrow>
          (case py_get data ''tests'' (JArr []) of
             Inl e \<Rightarrow> Inl e
           | Inr ts \<Rightarrow>
               (case py_iter ts of
                  Inl e \<Rightarrow> Inl e
                | Inr tests \<Rightarrow>
                    (case tests_loop proj env tests [] of
                       Inl e \<Rightarrow> Inl e
                     | Inr rows \<Rightarrow>
                         (case py_get data ''collectors'' (JArr []) of
                            Inl e \<Rightarrow> Inl e
                          | Inr cs \<Rightarrow>
                              (case py_iter cs of
                                 Inl e \<Rightarrow> Inl e
                               | Inr collectors \<Rightarrow>
                                   collectors_loop proj env collectors rows))))))"


subsection \<open>The loop of \<open>main\<close> over the project directories\<close>

text \<open>
  Directory discovery is outside the model: each subdirectory comes with the first
  \<open>.csv\<close> and the first \<open>.json\<close> path that \<open>os.walk\<close> found, if any. The state holds the
  data rows appended to \<open>final_all.csv\<close> and the diagnostics printed after discovery.
  An exception is not caught anywhere in \<open>main\<close>: it ends the run, and the rows appended
  before it stay in the file.
\<close>

record subdir =
  subpath :: string
  csv_file :: "string option"
  json_file :: "string option"

datatype message =
    Missing_files string
  | No_project_info string
  | Processed string nat

record run_state =
  output_rows :: "json row list"
  printed :: "message list"

text \<open>Truth value of an optional string: \<open>None\<close> and \<open>""\<close> are false.\<close>

fun truthy_str :: "string option \<Rightarrow> bool" where
  "truthy_str None = False"
| "truthy_str (Some s) = (s \<noteq> [])"

fun main_loop ::
  "(string \<Rightarrow> py_error + string list list) \<Rightarrow> (string \<Rightarrow> py_error + json) \<Rightarrow>
     subdir list \<Rightarrow> run_state \<Rightarrow> run_state \<times> py_error option" where
  "main_loop read_csv read_json [] st = (st, None)"
| "main_loop read_csv read_json (d # ds) st =
     (if \<not> truthy_str (csv_file d) \<or> \<not> truthy_str (json_file d) then
        main_loop read_csv read_json ds
          (st\<lparr>printed := printed st @ [Missing_files (subpath d)]\<rparr>)
      else
        (case get_project_info_from_csv read_csv (the (csv_file d)) of
           Inl e \<Rightarrow> (st, Some e)
         | Inr (project_name, env_from_csv) \<Rightarrow>
             if \<not> truthy_str project_name then
               main_loop read_csv read_json ds
                 (st\<lparr>printed := printed st @ [No_project_info (the (csv_file d))]\<rparr>)
             else
               (let environment =
                      (if truthy_str env_from_csv then the env_from_csv
                       else detect_environment (the (csv_file d)))
                in case process_json read_json (the (json_file d)) (the project_name)
                          environment of
                     Inl e \<Rightarrow> (st, Some e)
                   | Inr rows \<Rightarrow>
                       main_loop read_csv read_json ds
                         (st\<lparr>output_rows := output_rows st @ rows,
                             printed := printed st @ [Processed (subpath d) (length rows)]\<rparr>))))"

definition main ::
  "(string \<Rightarrow> py_error + string list list) \<Rightarrow> (string \<Rightarrow> py_error + json) \<Rightarrow>
     subdir list \<Rightarrow> run_state \<times> py_error option" where
  "main read_csv read_json subdirs =
     main_loop read_csv read_json subdirs \<lparr>output_rows = [], printed = []\<rparr>"

section \<open>The classifier: \<open>scripts/interpret2.py\<close>\<close>

text \<open>
  \<open>read_frame path\<close> is what \<open>pd.read_csv(path)\<close> gives: the exception raised, or the data
  rows of the frame in file order, with the five columns present and every cell of the
  \<open>project\<close>, \<open>test_name\<close>, \<open>outcome\<close> and \<open>environment\<close> columns a string.
\<close>

text \<open>
  \<open>Series.unique()\<close> and \<open>DataFrame.drop_duplicates()\<close>: the distinct values in order of
  first appearance.
\<close>

fun drop_duplicates_seen :: "'a list \<Rightarrow> 'a list \<Rightarrow> 'a list" where
  "drop_duplicates_seen seen [] = []"
| "drop_duplicates_seen seen (x # xs) =
     (if x \<in> set seen then drop_duplicates_seen seen xs
      else x # drop_duplicates_seen (x # seen) xs)"

definition drop_duplicates :: "'a list \<Rightarrow> 'a list" where
  "drop_duplicates xs = drop_duplicates_seen [] xs"

definition unique :: "'a list \<Rightarrow> 'a list" where
  "unique xs = drop_duplicates xs"

text \<open>The column \<open>df['test_id'] = df['project'] + '::' + df['test_name']\<close>.\<close>

definition test_id :: "string row \<Rightarrow> string" where
  "test_id r = project r @ ''::'' @ test_name r"

definition all_environments :: "string row list \<Rightarrow> string set" where
  "all_environments df = set (unique (map environment df))"

definition all_test_ids :: "string row list \<Rightarrow> string set" where
  "all_test_ids df = set (unique (map test_id df))"

text \<open>
  \<open>df.groupby('test_id')['environment'].apply(set).reset_index()\<close>: one entry for each
  key, the keys in sorted order, with the set of the environments of the key's rows.
\<close>

definition test_environments :: "string row list \<Rightarrow> (string \<times> string set) list" where
  "test_environments df =
     map (\<lambda>tid. (tid, set (map environment (filter (\<lambda>r. test_id r = tid) df))))
       (sorted_list_of_set (set (map test_id df)))"

text \<open>
  The entries of \<open>flaky_tests\<close>, and the rows of the returned frame, which carry the same
  four environment columns.
\<close>

record verdict =
  failing_environments :: "string list"
  passing_environments :: "string list"
  num_failing_envs :: nat
  num_passing_envs :: nat

record flaky_test = verdict +
  flaky_test_id :: string

text \<open>
  A cell of the columns that the left merge adds is \<open>None\<close> (NaN) when the key has no
  partner in \<open>test_details\<close>.
\<close>

record flaky_result = verdict +
  result_project :: "string option"
  result_test_name :: "string option"
  result_outcome :: "string option"

text \<open>
  The loop \<open>for _, row in test_environments.iterrows()\<close>, and the dict it appends for a
  test whose environments are not all the environments.
\<close>

definition flaky_entry :: "string set \<Rightarrow> string \<Rightarrow> string set \<Rightarrow> flaky_test" where
  "flaky_entry all_envs tid failing_envs =
     (let missing_envs = all_envs - failing_envs
      in \<lparr>failing_environments = sorted_list_of_set failing_envs,
          passing_environments = sorted_list_of_set missing_envs,
          num_failing_envs = card failing_envs,
          num_passing_envs = card missing_envs,
          flaky_test_id = tid\<rparr>)"

fun flaky_loop ::
  "string set \<Rightarrow> (string \<times> string set) list \<Rightarrow> flaky_test list \<Rightarrow> flaky_test list" where
  "flaky_loop all_envs [] flaky_tests = flaky_tests"
| "flaky_loop all_envs ((tid, failing_envs) # rest) flaky_tests =
     (if failing_envs \<noteq> all_envs then
        flaky_loop all_envs rest (flaky_tests @ [flaky_entry all_envs tid failing_envs])
      else flaky_loop all_envs rest flaky_tests)"

text \<open>\<open>df[['test_id', 'project', 'test_name', 'outcome']].drop_duplicates()\<close>.\<close>

definition test_details :: "string row list \<Rightarrow> (string \<times> string \<times> string \<times> string) list" where
  "test_details df =
     drop_duplicates (map (\<lambda>r. (test_id r, project r, test_name r, outcome r)) df)"

text \<open>
  \<open>flaky_df.merge(test_details, on='test_id', how='left')\<close> followed by the column
  selection: the left rows in order, each paired with its partners in the order of the
  right frame, or once with empty cells when it has none.
\<close>

definition joined_row :: "flaky_test \<Rightarrow> string \<times> string \<times> string \<times> string \<Rightarrow> flaky_result" where
  "joined_row ft d =
     (case d of
        (tid, p, t, oc) \<Rightarrow>
          \<lparr>failing_environments = failing_environments ft,
           passing_environments = passing_environments ft,
           num_failing_envs = num_failing_envs ft,
           num_passing_envs = num_passing_envs ft,
           result_project = Some p, result_test_name = Some t, result_outcome = Some oc\<rparr>)"

definition unmatched_row :: "flaky_test \<Rightarrow> flaky_result" where
  "unmatched_row ft =
     \<lparr>failing_environments = failing_environments ft,
      passing_environments = passing_environments ft,
      num_failing_envs = num_failing_envs ft,
      num_passing_envs = num_passing_envs ft,
      result_project = None, result_test_name = None, result_outcome = None\<rparr>"

definition merge_row ::
  "flaky_test \<Rightarrow> (string \<times> string \<times> string \<times> string) list \<Rightarrow> flaky_result list" where
  "merge_row ft details =
     (case filter (\<lambda>d. fst d = flaky_test_id ft) details of
        [] \<Rightarrow> [unmatched_row ft]
      | ds \<Rightarrow> map (joined_row ft) ds)"

definition merge_left ::
  "flaky_test list \<Rightarrow> (string \<times> string \<times> string \<times> string) list \<Rightarrow> flaky_result list" where
  "merge_left flaky_df details = concat (map (\<lambda>ft. merge_row ft details) flaky_df)"

text \<open>What the function prints, line by line.\<close>

datatype report_line =
    Error_file_not_found string
  | Error_reading_csv py_error
  | Loaded nat string
  | Columns_found "string list"
  | Unique_environments "string list"
  | Unique_projects nat
  | Total_unique_tests nat
  | Environments_found "string set"
  | No_flaky_tests_found

text \<open>
  \<open>analyze_flaky_tests\<close> returns the printed lines and the rows of the returned frame;
  \<open>pd.DataFrame()\<close> is the empty list of rows.
\<close>

definition analyze_flaky_tests ::
  "(string \<Rightarrow> py_error + string row list) \<Rightarrow> string \<Rightarrow>
     report_line list \<times> flaky_result list" where
  "analyze_flaky_tests read_frame csv_file_path =
     (case read_frame csv_file_path of
        Inl FileNotFoundError \<Rightarrow> ([Error_file_not_found csv_file_path], [])
      | Inl e \<Rightarrow> ([Error_reading_csv e], [])
      | Inr df \<Rightarrow>
          (let loaded =
                 [Loaded (length df) csv_file_path,
                  Columns_found [''project'', ''test_name'', ''outcome'', ''lineno'',
                                 ''environment''],
                  Unique_environments (sort (unique (map environment df))),
                  Unique_projects (length (unique (map project df)))];
               totals =
                 [Total_unique_tests (card (all_test_ids df)),
                  Environments_found (all_environments df)];
               flaky_tests = flaky_loop (all_environments df) (test_environments df) []
           in if flaky_tests = [] then (loaded @ totals @ [No_flaky_tests_found], [])
              else (loaded @ totals, merge_left flaky_tests (test_details df))))"


section \<open>Example inputs\<close>







text \<open>
  Frames for the classifier. In \<open>example_frame\<close> the test \<open>t1\<close> of project \<open>p1\<close> is
  recorded on \<open>linux\<close> and \<open>mac\<close> and the test \<open>t2\<close> on \<open>linux\<close>, \<open>mac\<close> and
  \<open>windows\<close>. In \<open>single_environment_frame\<close> every record is from \<open>linux\<close>. In
  \<open>mixed_outcome_frame\<close> the two records of one test have different outcomes. In
  \<open>colliding_frame\<close> two different tests have the same key \<open>a::b::c\<close>.
\<close>

definition example_record :: "string \<Rightarrow> string \<Rightarrow> string \<Rightarrow> string \<Rightarrow> string row" where
  "example_record p t oc e =
     \<lparr>project = p, test_name = t, outcome = oc, lineno = [], environment = e\<rparr>"

definition example_frame :: "string row list" where
  "example_frame =
     [example_record ''p1'' ''t1'' ''failed'' ''linux'',
      example_record ''p1'' ''t1'' ''failed'' ''mac'',
      example_record ''p1'' ''t2'' ''failed'' ''linux'',
      example_record ''p1'' ''t2'' ''failed'' ''mac'',
      example_record ''p1'' ''t2'' ''failed'' ''windows'']"

definition example_read_frame :: "string \<Rightarrow> py_error + string row list" where
  "example_read_frame path = Inr example_frame"

definition single_environment_frame :: "string row list" where
  "single_environment_frame =
     [example_record ''p1'' ''t1'' ''failed'' ''linux'',
      example_record ''p1'' ''t2'' ''error'' ''linux'',
      example_record ''p2'' ''t1'' ''passed'' ''linux'']"

definition single_environment_read_frame :: "string \<Rightarrow> py_error + string row list" where
  "single_environment_read_frame path = Inr single_environment_frame"




definition missing_read_frame :: "string \<Rightarrow> py_error + string row list" where
  "missing_read_frame path = Inl FileNotFoundError"

definition unparseable_read_frame :: "string \<Rightarrow> py_error + string row list" where
  "unparseable_read_frame path = Inl (OtherException ''ParserError'')"

definition header_only_read_frame :: "string \<Rightarrow> py_error + string row list" where
  "header_only_read_frame path = Inr []"

section \<open>Properties of the extractor\<close>

subsection \<open>Substrings\<close>




subsection \<open>Splitting a line at commas\<close>










subsection \<open>The stage loop\<close>





subsection \<open>Environment detection by keyword\<close>



subsection \<open>Project and environment from the metadata\<close>



subsection \<open>One record per test, from the first populated stage\<close>



section \<open>Properties of the classifier\<close>

subsection \<open>Distinct values, groups and the flaky loop\<close>

lemma set_drop_duplicates_seen: "set (drop_duplicates_seen seen xs) = set xs - set seen"
  by (induction xs arbitrary: seen) auto


lemma set_drop_duplicates: "set (drop_duplicates xs) = set xs"
  by (simp add: drop_duplicates_def set_drop_duplicates_seen)


lemma set_unique: "set (unique xs) = set xs"
  by (simp add: unique_def set_drop_duplicates)






lemma all_environments_eq: "all_environments df = environment ` set df"
  by (simp add: all_environments_def set_unique)

lemma flaky_loop_eq:
  "flaky_loop all_envs entries acc =
     acc @ map (\<lambda>(tid, failing_envs). flaky_entry all_envs tid failing_envs)
             (filter (\<lambda>(tid, failing_envs). failing_envs \<noteq> all_envs) entries)"
  by (induction all_envs entries acc rule: flaky_loop.induct) auto

lemma map_fst_test_environments:
  "map fst (test_environments df) = sorted_list_of_set (test_id ` set df)"
  by (simp add: test_environments_def comp_def)

lemma test_environments_entry:
  "(tid, envs) \<in> set (test_environments df) \<longleftrightarrow>
   tid \<in> test_id ` set df \<and> envs = environment ` {r \<in> set df. test_id r = tid}"
  by (auto simp: test_environments_def)

subsection \<open>The rows of the returned frame\<close>

lemma analyze_output:
  "read_frame path = Inr df \<Longrightarrow>
   snd (analyze_flaky_tests read_frame path) =
     merge_left (flaky_loop (all_environments df) (test_environments df) []) (test_details df)"
  by (simp add: analyze_flaky_tests_def Let_def merge_left_def)

lemma analyze_failure:
  "read_frame path = Inl e \<Longrightarrow>
   analyze_flaky_tests read_frame path =
     (if e = FileNotFoundError then ([Error_file_not_found path], [])
      else ([Error_reading_csv e], []))"
  by (cases e) (simp_all add: analyze_flaky_tests_def)

lemma flaky_list:
  "flaky_loop U (test_environments df) [] =
     map (\<lambda>tid. flaky_entry U tid (environment ` {r \<in> set df. test_id r = tid}))
       (filter (\<lambda>tid. environment ` {r \<in> set df. test_id r = tid} \<noteq> U)
          (sorted_list_of_set (test_id ` set df)))"
proof -
  have g: "\<And>tid. set (map environment (filter (\<lambda>r. test_id r = tid) df)) =
                 environment ` {r \<in> set df. test_id r = tid}"
    by auto
  show ?thesis
    by (simp add: flaky_loop_eq test_environments_def filter_map comp_def g)
qed

lemma flaky_test_id_entry [simp]: "flaky_test_id (flaky_entry U tid envs) = tid"
  by (simp add: flaky_entry_def Let_def)

lemma map_flaky_test_id:
  "map flaky_test_id (flaky_loop U (test_environments df) []) =
     filter (\<lambda>tid. environment ` {r \<in> set df. test_id r = tid} \<noteq> U)
       (sorted_list_of_set (test_id ` set df))"
  by (simp add: flaky_list comp_def)

lemma flaky_ids:
  "flaky_test_id ` set (flaky_loop U (test_environments df) []) =
     {tid \<in> test_id ` set df. environment ` {r \<in> set df. test_id r = tid} \<noteq> U}"
proof -
  have "flaky_test_id ` set (flaky_loop U (test_environments df) []) =
        set (map flaky_test_id (flaky_loop U (test_environments df) []))"
    by simp
  also have "\<dots> = {tid \<in> test_id ` set df. environment ` {r \<in> set df. test_id r = tid} \<noteq> U}"
    unfolding map_flaky_test_id by auto
  finally show ?thesis .
qed

lemma flaky_member:
  "ft \<in> set (flaky_loop U (test_environments df) []) \<longleftrightarrow>
   flaky_test_id ft \<in> test_id ` set df \<and>
   environment ` {r \<in> set df. test_id r = flaky_test_id ft} \<noteq> U \<and>
   ft = flaky_entry U (flaky_test_id ft) (environment ` {r \<in> set df. test_id r = flaky_test_id ft})"
  (is "?L \<longleftrightarrow> ?R")
proof
  assume ?L
  then obtain tid where "tid \<in> test_id ` set df"
    "environment ` {r \<in> set df. test_id r = tid} \<noteq> U"
    "ft = flaky_entry U tid (environment ` {r \<in> set df. test_id r = tid})"
    unfolding flaky_list by auto
  then show ?R by simp
next
  assume r: ?R
  define f where "f = (\<lambda>tid. flaky_entry U tid (environment ` {r \<in> set df. test_id r = tid}))"
  define keys where "keys = filter (\<lambda>tid. environment ` {r \<in> set df. test_id r = tid} \<noteq> U)
          (sorted_list_of_set (test_id ` set df))"
  have fl: "flaky_loop U (test_environments df) [] = map f keys"
    unfolding f_def keys_def by (rule flaky_list)
  from r have "flaky_test_id ft \<in> set keys"
    by (simp add: keys_def)
  then have "f (flaky_test_id ft) \<in> set (map f keys)"
    by auto
  moreover from r have "ft = f (flaky_test_id ft)"
    by (simp add: f_def)
  ultimately show ?L
    by (simp only: fl)
qed


lemma set_test_details:
  "set (test_details df) = (\<lambda>r. (test_id r, project r, test_name r, outcome r)) ` set df"
  by (simp add: test_details_def set_drop_duplicates)

lemma merge_row_matched:
  assumes "flaky_test_id ft \<in> test_id ` set df"
  shows "merge_row ft (test_details df) =
         map (joined_row ft) (filter (\<lambda>d. fst d = flaky_test_id ft) (test_details df))"
proof -
  from assms obtain r where r: "r \<in> set df" and e: "test_id r = flaky_test_id ft" by auto
  from r have "(test_id r, project r, test_name r, outcome r) \<in> set (test_details df)"
    by (simp add: set_test_details)
  with e have "(test_id r, project r, test_name r, outcome r) \<in>
             set (filter (\<lambda>d. fst d = flaky_test_id ft) (test_details df))"
    by (simp only: set_filter mem_Collect_eq fst_conv simp_thms)
  then have "filter (\<lambda>d. fst d = flaky_test_id ft) (test_details df) \<noteq> []"
    by (metis empty_iff empty_set)
  then show ?thesis
    by (cases "filter (\<lambda>d. fst d = flaky_test_id ft) (test_details df)")
       (simp_all add: merge_row_def)
qed

lemma output_member:
  assumes "read_frame path = Inr df"
  shows "v \<in> set (snd (analyze_flaky_tests read_frame path)) \<longleftrightarrow>
    (\<exists>r \<in> set df. environment ` {r' \<in> set df. test_id r' = test_id r} \<noteq> all_environments df \<and>
       v = joined_row (flaky_entry (all_environments df) (test_id r)
                         (environment ` {r' \<in> set df. test_id r' = test_id r}))
             (test_id r, project r, test_name r, outcome r))"
    (is "?L \<longleftrightarrow> ?R")
proof
  assume ?L
  then obtain ft where ft: "ft \<in> set (flaky_loop (all_environments df) (test_environments df) [])"
    and v: "v \<in> set (merge_row ft (test_details df))"
    by (auto simp: analyze_output [of read_frame path df, OF assms] merge_left_def)
  from ft have id: "flaky_test_id ft \<in> test_id ` set df"
    and fl: "environment ` {r \<in> set df. test_id r = flaky_test_id ft} \<noteq> all_environments df"
    and eq: "ft = flaky_entry (all_environments df) (flaky_test_id ft)
                   (environment ` {r \<in> set df. test_id r = flaky_test_id ft})"
    by (simp_all add: flaky_member)
  from v obtain d where d: "d \<in> set (test_details df)" "fst d = flaky_test_id ft"
    and vd: "v = joined_row ft d"
    by (auto simp: merge_row_matched [OF id])
  from d obtain r where r: "r \<in> set df" "d = (test_id r, project r, test_name r, outcome r)"
    by (auto simp: set_test_details)
  with d have "test_id r = flaky_test_id ft" by simp
  with r fl eq vd show ?R by (intro bexI [of _ r]) auto
next
  assume ?R
  then obtain r where r: "r \<in> set df"
    and fl: "environment ` {r' \<in> set df. test_id r' = test_id r} \<noteq> all_environments df"
    and v: "v = joined_row (flaky_entry (all_environments df) (test_id r)
                         (environment ` {r' \<in> set df. test_id r' = test_id r}))
             (test_id r, project r, test_name r, outcome r)"
    by auto
  let ?ft = "flaky_entry (all_environments df) (test_id r)
                         (environment ` {r' \<in> set df. test_id r' = test_id r})"
  have i: "flaky_test_id ?ft = test_id r" by (simp add: flaky_entry_def Let_def)
  have ft: "?ft \<in> set (flaky_loop (all_environments df) (test_environments df) [])"
    using r fl by (simp add: flaky_member i)
  have id: "flaky_test_id ?ft \<in> test_id ` set df" using r i by auto
  have "(test_id r, project r, test_name r, outcome r) \<in> set (test_details df)"
    using r by (auto simp: set_test_details)
  then have "v \<in> set (merge_row ?ft (test_details df))"
    unfolding merge_row_matched [OF id] v using i by auto
  with ft show ?L
    by (auto simp: analyze_output [of read_frame path df, OF assms] merge_left_def)
qed

lemma group_environments:
  assumes "r \<in> set df"
  shows "environment ` {r' \<in> set df. test_id r' = test_id r} \<noteq> {}"
    and "environment ` {r' \<in> set df. test_id r' = test_id r} \<subseteq> all_environments df"
    and "finite (all_environments df)"
  using assms by (auto simp: all_environments_eq)

lemma analyze_empty_frame:
  "read_frame path = Inr [] \<Longrightarrow>
     analyze_flaky_tests read_frame path =
       ([Loaded 0 path,
         Columns_found [''project'', ''test_name'', ''outcome'', ''lineno'', ''environment''],
         Unique_environments [], Unique_projects 0, Total_unique_tests 0,
         Environments_found {}, No_flaky_tests_found], [])"
proof -
  assume rf: "read_frame path = Inr []"
  have u: "unique ([] :: string list) = []"
    by (simp add: unique_def drop_duplicates_def)
  have e: "all_environments [] = {}" "all_test_ids [] = {}"
    by (simp_all add: all_environments_def all_test_ids_def u)
  have t: "test_environments [] = []"
    by (simp add: test_environments_def)
  show ?thesis
    by (simp add: analyze_flaky_tests_def rf u e t)
qed

subsection \<open>Flaky means: not recorded in every environment\<close>

text \<open>
  C5. A test key is put into \<open>flaky_tests\<close> exactly when it is the key of some record and
  the set of environments of its group differs from the set of all environments of the
  input; accordingly the project and test name of a record appear in a row of the
  returned frame exactly when the environments of the record's group are not all the
  environments. For \<open>example_frame\<close>, whose environments are \<open>linux\<close>, \<open>mac\<close> and
  \<open>windows\<close>, the test \<open>t1\<close> recorded on \<open>linux\<close> and \<open>mac\<close> is returned with failing
  environments \<open>linux\<close>, \<open>mac\<close> and passing environment \<open>windows\<close>, and the test \<open>t2\<close>
  recorded on all three is not returned.
\<close>

theorem flaky_iff_not_all_environments:
  "(tid \<in> flaky_test_id ` set (flaky_loop (all_environments df) (test_environments df) []) \<longleftrightarrow>
      tid \<in> test_id ` set df \<and>
      environment ` {r \<in> set df. test_id r = tid} \<noteq> environment ` set df) \<and>
   (read_frame path = Inr df \<and> r \<in> set df \<longrightarrow>
      ((\<exists>v \<in> set (snd (analyze_flaky_tests read_frame path)).
          result_project v = Some (project r) \<and> result_test_name v = Some (test_name r)) \<longleftrightarrow>
       environment ` {r' \<in> set df. test_id r' = test_id r} \<noteq> environment ` set df)) \<and>
   all_environments example_frame = {''linux'', ''mac'', ''windows''} \<and>
   snd (analyze_flaky_tests example_read_frame path) =
     [\<lparr>failing_environments = [''linux'', ''mac''], passing_environments = [''windows''],
       num_failing_envs = 2, num_passing_envs = 1, result_project = Some ''p1'',
       result_test_name = Some ''t1'', result_outcome = Some ''failed''\<rparr>]"
proof -
  have a: "tid \<in> flaky_test_id ` set (flaky_loop (all_environments df) (test_environments df) []) \<longleftrightarrow>
      tid \<in> test_id ` set df \<and>
      environment ` {r \<in> set df. test_id r = tid} \<noteq> environment ` set df"
    by (simp add: flaky_ids all_environments_eq)
  have b: "(\<exists>v \<in> set (snd (analyze_flaky_tests read_frame path)).
          result_project v = Some (project r) \<and> result_test_name v = Some (test_name r)) \<longleftrightarrow>
       environment ` {r' \<in> set df. test_id r' = test_id r} \<noteq> environment ` set df"
    if rf: "read_frame path = Inr df" and r: "r \<in> set df"
  proof
    assume "\<exists>v \<in> set (snd (analyze_flaky_tests read_frame path)).
          result_project v = Some (project r) \<and> result_test_name v = Some (test_name r)"
    then obtain v where v: "v \<in> set (snd (analyze_flaky_tests read_frame path))"
      and pv: "result_project v = Some (project r)" and tv: "result_test_name v = Some (test_name r)"
      by blast
    from v obtain r0 where r0: "r0 \<in> set df"
      and fl: "environment ` {r' \<in> set df. test_id r' = test_id r0} \<noteq> all_environments df"
      and ve: "v = joined_row (flaky_entry (all_environments df) (test_id r0)
                         (environment ` {r' \<in> set df. test_id r' = test_id r0}))
             (test_id r0, project r0, test_name r0, outcome r0)"
      unfolding output_member [of read_frame path df, OF rf] by blast
    from ve pv tv have "project r0 = project r" "test_name r0 = test_name r"
      by (simp_all add: joined_row_def)
    then have "test_id r0 = test_id r" by (simp add: test_id_def)
    with fl show "environment ` {r' \<in> set df. test_id r' = test_id r} \<noteq> environment ` set df"
      by (simp add: all_environments_eq)
  next
    assume fl: "environment ` {r' \<in> set df. test_id r' = test_id r} \<noteq> environment ` set df"
    let ?v = "joined_row (flaky_entry (all_environments df) (test_id r)
                         (environment ` {r' \<in> set df. test_id r' = test_id r}))
             (test_id r, project r, test_name r, outcome r)"
    have "?v \<in> set (snd (analyze_flaky_tests read_frame path))"
    proof -
      from fl have "environment ` {r' \<in> set df. test_id r' = test_id r} \<noteq> all_environments df"
        by (simp add: all_environments_eq)
      with r show ?thesis
        unfolding output_member [of read_frame path df, OF rf] by blast
    qed
    moreover have "result_project ?v = Some (project r) \<and> result_test_name ?v = Some (test_name r)"
      by (simp add: joined_row_def)
    ultimately show "\<exists>v \<in> set (snd (analyze_flaky_tests read_frame path)).
          result_project v = Some (project r) \<and> result_test_name v = Some (test_name r)"
      by blast
  qed
  have c: "all_environments example_frame = {''linux'', ''mac'', ''windows''}"
    by code_simp
  have d0: "snd (analyze_flaky_tests example_read_frame []) =
     [\<lparr>failing_environments = [''linux'', ''mac''], passing_environments = [''windows''],
       num_failing_envs = 2, num_passing_envs = 1, result_project = Some ''p1'',
       result_test_name = Some ''t1'', result_outcome = Some ''failed''\<rparr>]"
    by code_simp
  have "snd (analyze_flaky_tests example_read_frame path) =
        snd (analyze_flaky_tests example_read_frame [])"
    by (simp add: analyze_output [of example_read_frame _ example_frame] example_read_frame_def)
  with d0 have d: "snd (analyze_flaky_tests example_read_frame path) =
     [\<lparr>failing_environments = [''linux'', ''mac''], passing_environments = [''windows''],
       num_failing_envs = 2, num_passing_envs = 1, result_project = Some ''p1'',
       result_test_name = Some ''t1'', result_outcome = Some ''failed''\<rparr>]"
    by simp
  from a b c d show ?thesis by blast
qed

theorem flaky_iff_not_all_environments_witness:
  "example_read_frame ''final.csv'' = Inr example_frame \<and>
   example_record ''p1'' ''t1'' ''failed'' ''linux'' \<in> set example_frame \<and>
   example_record ''p1'' ''t2'' ''failed'' ''linux'' \<in> set example_frame \<and>
   (\<exists>v \<in> set (snd (analyze_flaky_tests example_read_frame ''final.csv'')).
      result_project v = Some ''p1'' \<and> result_test_name v = Some ''t1'') \<and>
   environment ` {r' \<in> set example_frame.
                   test_id r' = test_id (example_record ''p1'' ''t1'' ''failed'' ''linux'')}
     \<noteq> environment ` set example_frame \<and>
   \<not> (\<exists>v \<in> set (snd (analyze_flaky_tests example_read_frame ''final.csv'')).
      result_project v = Some ''p1'' \<and> result_test_name v = Some ''t2'') \<and>
   environment ` {r' \<in> set example_frame.
                   test_id r' = test_id (example_record ''p1'' ''t2'' ''failed'' ''linux'')}
     = environment ` set example_frame"
proof -
  let ?r1 = "example_record ''p1'' ''t1'' ''failed'' ''linux''"
  let ?r2 = "example_record ''p1'' ''t2'' ''failed'' ''linux''"
  have h: "example_read_frame ''final.csv'' = Inr example_frame"
    by (simp add: example_read_frame_def)
  have m1: "?r1 \<in> set example_frame" and m2: "?r2 \<in> set example_frame"
    by (simp_all add: example_frame_def)
  have p: "project ?r1 = ''p1''" "test_name ?r1 = ''t1''"
          "project ?r2 = ''p1''" "test_name ?r2 = ''t2''"
    by (simp_all add: example_record_def)
  note t1 = flaky_iff_not_all_environments
    [where df = example_frame and read_frame = example_read_frame and path = "''final.csv''"
       and r = ?r1]
  note t2 = flaky_iff_not_all_environments
    [where df = example_frame and read_frame = example_read_frame and path = "''final.csv''"
       and r = ?r2]
  from t1 have out: "snd (analyze_flaky_tests example_read_frame ''final.csv'') =
     [\<lparr>failing_environments = [''linux'', ''mac''], passing_environments = [''windows''],
       num_failing_envs = 2, num_passing_envs = 1, result_project = Some ''p1'',
       result_test_name = Some ''t1'', result_outcome = Some ''failed''\<rparr>]"
    by (simp only: simp_thms)
  have e1: "\<exists>v \<in> set (snd (analyze_flaky_tests example_read_frame ''final.csv'')).
      result_project v = Some ''p1'' \<and> result_test_name v = Some ''t1''"
    by (simp add: out)
  have e2: "\<not> (\<exists>v \<in> set (snd (analyze_flaky_tests example_read_frame ''final.csv'')).
      result_project v = Some ''p1'' \<and> result_test_name v = Some ''t2'')"
    by (simp add: out)
  from t1 h m1 e1 have g1: "environment ` {r' \<in> set example_frame. test_id r' = test_id ?r1}
     \<noteq> environment ` set example_frame"
    by (simp only: p simp_thms)
  from t2 h m2 e2 have g2: "environment ` {r' \<in> set example_frame. test_id r' = test_id ?r2}
     = environment ` set example_frame"
    by (simp only: p simp_thms)
  from h m1 m2 e1 e2 g1 g2 show ?thesis
    by (simp only: simp_thms)
qed

subsection \<open>Failing and passing environments partition the universe\<close>

text \<open>
  C6. In every row of the returned frame the failing and the passing environments are
  disjoint, together they are all the environments of the input, and neither list is
  empty.
\<close>

theorem verdict_partition:
  "read_frame path = Inr df \<and> v \<in> set (snd (analyze_flaky_tests read_frame path)) \<longrightarrow>
     set (failing_environments v) \<inter> set (passing_environments v) = {} \<and>
     set (failing_environments v) \<union> set (passing_environments v) = all_environments df \<and>
     failing_environments v \<noteq> [] \<and> passing_environments v \<noteq> []"
proof
  assume "read_frame path = Inr df \<and> v \<in> set (snd (analyze_flaky_tests read_frame path))"
  then have rf: "read_frame path = Inr df"
    and v: "v \<in> set (snd (analyze_flaky_tests read_frame path))"
    by simp_all
  define U where "U = all_environments df"
  from v obtain r where r: "r \<in> set df"
    and fl: "environment ` {r' \<in> set df. test_id r' = test_id r} \<noteq> U"
    and ve: "v = joined_row (flaky_entry U (test_id r)
                         (environment ` {r' \<in> set df. test_id r' = test_id r}))
             (test_id r, project r, test_name r, outcome r)"
    unfolding output_member [of read_frame path df, OF rf] U_def by blast
  define G where "G = environment ` {r' \<in> set df. test_id r' = test_id r}"
  have G: "G \<noteq> {}" "G \<subseteq> U" "finite U" "G \<noteq> U"
    using group_environments [OF r] fl by (simp_all add: G_def U_def)
  then have fG: "finite G" and fD: "finite (U - G)" and D: "U - G \<noteq> {}"
    by (auto intro: finite_subset)
  have f: "failing_environments v = sorted_list_of_set G"
    and p: "passing_environments v = sorted_list_of_set (U - G)"
    by (simp_all add: ve joined_row_def flaky_entry_def Let_def G_def)
  have "set (failing_environments v) = G" "set (passing_environments v) = U - G"
    using fG fD by (simp_all add: f p)
  moreover have "failing_environments v \<noteq> []" "passing_environments v \<noteq> []"
    using fG fD G(1) D by (simp_all add: f p)
  ultimately show "set (failing_environments v) \<inter> set (passing_environments v) = {} \<and>
     set (failing_environments v) \<union> set (passing_environments v) = all_environments df \<and>
     failing_environments v \<noteq> [] \<and> passing_environments v \<noteq> []"
    using G(2) by (auto simp: U_def)
qed

theorem verdict_partition_witness:
  "example_read_frame ''final.csv'' = Inr example_frame \<and>
   \<lparr>failing_environments = [''linux'', ''mac''], passing_environments = [''windows''],
     num_failing_envs = 2, num_passing_envs = 1, result_project = Some ''p1'',
     result_test_name = Some ''t1'', result_outcome = Some ''failed''\<rparr>
     \<in> set (snd (analyze_flaky_tests example_read_frame ''final.csv'')) \<and>
   set [''linux'', ''mac''] \<inter> set [''windows''] = ({} :: string set) \<and>
   set [''linux'', ''mac''] \<union> set [''windows''] = all_environments example_frame"
proof -
  let ?v = "\<lparr>failing_environments = [''linux'', ''mac''], passing_environments = [''windows''],
     num_failing_envs = 2, num_passing_envs = 1, result_project = Some ''p1'',
     result_test_name = Some ''t1'', result_outcome = Some ''failed''\<rparr>"
  have h: "example_read_frame ''final.csv'' = Inr example_frame"
    by (simp add: example_read_frame_def)
  have out: "snd (analyze_flaky_tests example_read_frame ''final.csv'') = [?v]"
    by code_simp
  then have m: "?v \<in> set (snd (analyze_flaky_tests example_read_frame ''final.csv''))"
    by simp
  from verdict_partition [of example_read_frame "''final.csv''" example_frame ?v] h m
  have "set (failing_environments ?v) \<inter> set (passing_environments ?v) = {} \<and>
     set (failing_environments ?v) \<union> set (passing_environments ?v) =
       all_environments example_frame"
    by (simp only: simp_thms)
  then have "set [''linux'', ''mac''] \<inter> set [''windows''] = ({} :: string set) \<and>
     set [''linux'', ''mac''] \<union> set [''windows''] = all_environments example_frame"
    by simp
  with h m show ?thesis
    by (simp only: simp_thms)
qed

subsection \<open>A single environment\<close>

text \<open>
  C7. When all records of the input carry the same single environment, the returned
  frame has no rows, whatever the projects, test names and outcomes are.
\<close>

theorem single_environment_no_verdicts:
  "read_frame path = Inr df \<and> all_environments df = {e} \<longrightarrow>
     snd (analyze_flaky_tests read_frame path) = []"
proof
  assume a: "read_frame path = Inr df \<and> all_environments df = {e}"
  then have rf: "read_frame path = Inr df" and u: "all_environments df = {e}"
    by simp_all
  have "v \<notin> set (snd (analyze_flaky_tests read_frame path))" for v
  proof
    assume "v \<in> set (snd (analyze_flaky_tests read_frame path))"
    then obtain r where r: "r \<in> set df"
      and fl: "environment ` {r' \<in> set df. test_id r' = test_id r} \<noteq> all_environments df"
      unfolding output_member [of read_frame path df, OF rf] by blast
    have "environment ` {r' \<in> set df. test_id r' = test_id r} \<subseteq> {e}"
      using group_environments(2) [OF r] by (simp only: u)
    then have "environment ` {r' \<in> set df. test_id r' = test_id r} = {e}"
      using group_environments(1) [OF r] by (simp only: subset_singleton_iff) simp
    with fl u show False by simp
  qed
  then have "set (snd (analyze_flaky_tests read_frame path)) = {}"
    by (simp only: set_eq_iff empty_iff simp_thms)
  then show "snd (analyze_flaky_tests read_frame path) = []"
    by (simp only: set_empty)
qed

theorem single_environment_no_verdicts_witness:
  "single_environment_read_frame ''final.csv'' = Inr single_environment_frame \<and>
   all_environments single_environment_frame = {''linux''} \<and>
   snd (analyze_flaky_tests single_environment_read_frame ''final.csv'') = []"
proof -
  have h: "single_environment_read_frame ''final.csv'' = Inr single_environment_frame"
    by (simp add: single_environment_read_frame_def)
  have u: "all_environments single_environment_frame = {''linux''}"
    by code_simp
  from single_environment_no_verdicts
    [of single_environment_read_frame "''final.csv''" single_environment_frame "''linux''"] h u
  have "snd (analyze_flaky_tests single_environment_read_frame ''final.csv'') = []"
    by (simp only: simp_thms)
  with h u show ?thesis
    by (simp only: simp_thms)
qed

subsection \<open>Header-only input\<close>

text \<open>
  C9. For a frame with no data rows the classifier prints its summary lines and the
  notice that no flaky tests were found, and returns the empty frame; no exception
  leaves the function.
\<close>

theorem header_only_input_empty_result:
  "read_frame path = Inr [] \<longrightarrow>
     analyze_flaky_tests read_frame path =
       ([Loaded 0 path,
         Columns_found [''project'', ''test_name'', ''outcome'', ''lineno'', ''environment''],
         Unique_environments [], Unique_projects 0, Total_unique_tests 0,
         Environments_found {}, No_flaky_tests_found], [])"
  using analyze_empty_frame [of read_frame path] by (rule impI)

theorem header_only_input_empty_result_witness:
  "header_only_read_frame ''final.csv'' = Inr [] \<and>
   analyze_flaky_tests header_only_read_frame ''final.csv'' =
     ([Loaded 0 ''final.csv'',
       Columns_found [''project'', ''test_name'', ''outcome'', ''lineno'', ''environment''],
       Unique_environments [], Unique_projects 0, Total_unique_tests 0,
       Environments_found {}, No_flaky_tests_found], [])"
proof -
  have h: "header_only_read_frame ''final.csv'' = Inr []"
    by (simp add: header_only_read_frame_def)
  from header_only_input_empty_result [of header_only_read_frame "''final.csv''"] h
  show ?thesis
    by (simp only: simp_thms)
qed

subsection \<open>Read failures\<close>

text \<open>
  C3, as the code has it. When the file is absent or cannot be read, the classifier
  prints one error line and returns the empty frame; a frame that was read starts the
  printed lines with the \<open>Loaded\<close> line instead. So a read failure returns the same
  value as a header-only input and differs from it in the printed lines only.
\<close>

theorem read_failure_empty_result:
  "(read_frame path = Inl FileNotFoundError \<longrightarrow>
      analyze_flaky_tests read_frame path = ([Error_file_not_found path], [])) \<and>
   (read_frame path = Inl e \<and> e \<noteq> FileNotFoundError \<longrightarrow>
      analyze_flaky_tests read_frame path = ([Error_reading_csv e], [])) \<and>
   (read_frame path = Inr df \<longrightarrow>
      (\<exists>rest. fst (analyze_flaky_tests read_frame path) = Loaded (length df) path # rest))"
proof (intro conjI impI)
  assume "read_frame path = Inl FileNotFoundError"
  then show "analyze_flaky_tests read_frame path = ([Error_file_not_found path], [])"
    by (simp add: analyze_failure)
next
  assume "read_frame path = Inl e \<and> e \<noteq> FileNotFoundError"
  then show "analyze_flaky_tests read_frame path = ([Error_reading_csv e], [])"
    by (simp add: analyze_failure)
next
  assume "read_frame path = Inr df"
  then show "\<exists>rest. fst (analyze_flaky_tests read_frame path) = Loaded (length df) path # rest"
    by (simp add: analyze_flaky_tests_def Let_def)
qed

theorem read_failure_empty_result_witness:
  "(missing_read_frame ''final.csv'' = Inl FileNotFoundError \<and>
      analyze_flaky_tests missing_read_frame ''final.csv'' =
        ([Error_file_not_found ''final.csv''], [])) \<and>
   (unparseable_read_frame ''final.csv'' = Inl (OtherException ''ParserError'') \<and>
      OtherException ''ParserError'' \<noteq> FileNotFoundError \<and>
      analyze_flaky_tests unparseable_read_frame ''final.csv'' =
        ([Error_reading_csv (OtherException ''ParserError'')], [])) \<and>
   (header_only_read_frame ''final.csv'' = Inr [] \<and>
      (\<exists>rest. fst (analyze_flaky_tests header_only_read_frame ''final.csv'') =
                Loaded (length ([] :: string row list)) ''final.csv'' # rest))"
proof -
  have h1: "missing_read_frame ''final.csv'' = Inl FileNotFoundError"
    by (simp add: missing_read_frame_def)
  have h2: "unparseable_read_frame ''final.csv'' = Inl (OtherException ''ParserError'') \<and>
      OtherException ''ParserError'' \<noteq> FileNotFoundError"
    by (simp add: unparseable_read_frame_def)
  have h3: "header_only_read_frame ''final.csv'' = Inr []"
    by (simp add: header_only_read_frame_def)
  from read_failure_empty_result [of missing_read_frame "''final.csv''"] h1
  have a: "analyze_flaky_tests missing_read_frame ''final.csv'' =
        ([Error_file_not_found ''final.csv''], [])"
    by (simp only: simp_thms)
  from read_failure_empty_result
    [of unparseable_read_frame "''final.csv''" "OtherException ''ParserError''"] h2
  have b: "analyze_flaky_tests unparseable_read_frame ''final.csv'' =
        ([Error_reading_csv (OtherException ''ParserError'')], [])"
    by (simp only: simp_thms)
  from read_failure_empty_result [of header_only_read_frame "''final.csv''" _ "[]"] h3
  have c: "\<exists>rest. fst (analyze_flaky_tests header_only_read_frame ''final.csv'') =
                Loaded (length ([] :: string row list)) ''final.csv'' # rest"
    by (simp only: simp_thms)
  from h1 h2 h3 a b c show ?thesis
    by (simp only: simp_thms)
qed

text \<open>
  C3, as stated, asks that a read failure produce no empty result and be
  distinguishable from the result for a valid but empty input. For a missing file the
  function returns the empty frame, the very value it returns for a header-only file.
\<close>

theorem read_failure_counterexample:
  "snd (analyze_flaky_tests missing_read_frame ''final.csv'') = [] \<and>
   snd (analyze_flaky_tests missing_read_frame ''final.csv'') =
     snd (analyze_flaky_tests header_only_read_frame ''final.csv'')"
proof -
  have "analyze_flaky_tests missing_read_frame ''final.csv'' =
          ([Error_file_not_found ''final.csv''], [])"
    by (simp add: analyze_failure missing_read_frame_def)
  moreover have "snd (analyze_flaky_tests header_only_read_frame ''final.csv'') = []"
    by (simp add: analyze_empty_frame header_only_read_frame_def)
  ultimately show ?thesis by simp
qed

subsection \<open>The grouping key\<close>






subsection \<open>The rows returned for one flaky test\<close>












end
